theory Spec2Isabelle
  imports Main "HOL-Library.Multiset"
begin

section \<open>The Post service of server.js\<close>

text \<open>
  server.js is an Express application with five routes over one Mongoose model,
  \<open>Post\<close>. Each handler is embedded as a function from the store state to a response
  and the next store state. The Mongoose calls the handlers make (\<open>new Post\<close>,
  \<open>save\<close>, \<open>find().sort\<close>, \<open>findByIdAndUpdate\<close>, \<open>findByIdAndDelete\<close>) belong to
  the library, not to server.js; they are embedded here with the behaviour Mongoose
  (version 6 and later) documents for the options server.js passes, and every rejection
  of such a call is a value \<open>Inl e\<close> that the handler's \<open>catch\<close> branch receives.
\<close>

subsection \<open>Request bodies\<close>

text \<open>
  A field of the parsed JSON body, as far as the schema types it (\<open>String\<close>): the key is
  absent (\<open>undefined\<close> after destructuring), \<open>null\<close>, or a string.
\<close>

datatype jsval = Undefined | Null | Str string

text \<open>JavaScript truthiness, used by \<open>!title\<close> and \<open>author || 'Anonymous'\<close>.\<close>

fun truthy :: "jsval \<Rightarrow> bool" where
  "truthy Undefined = False"
| "truthy Null = False"
| "truthy (Str s) = (s \<noteq> [])"

definition js_or :: "jsval \<Rightarrow> jsval \<Rightarrow> jsval" where
  "js_or a b = (if truthy a then a else b)"

record body =
  b_title :: jsval
  b_content :: jsval
  b_author :: jsval

subsection \<open>Documents, store and environment\<close>

text \<open>
  A stored Post document. \<open>p_id\<close> is the \<open>_id\<close> (an ObjectId, read as the number its
  24 hexadecimal digits denote); a field that is \<open>null\<close> or missing is \<open>None\<close>;
  timestamps are milliseconds.
\<close>

record post =
  p_id :: nat
  p_title :: "string option"
  p_content :: "string option"
  p_author :: "string option"
  createdAt :: nat
  updatedAt :: nat

text \<open>
  The state the handlers act on: the collection (in insertion order), the ObjectId
  generator of the process (a counter: every \<open>new Post\<close> takes the next value), and the
  number of storage calls made so far.
\<close>

record store =
  posts :: "post list"
  next_id :: nat
  storage_calls :: nat

definition empty_store :: store where
  "empty_store = \<lparr>posts = [], next_id = 0, storage_calls = 0\<rparr>"

text \<open>
  What a request meets outside the program: the clock, and whether the database fails
  the call (connectivity loss and the like), with the driver's message.
\<close>

record env =
  now :: nat
  fault :: "string option"

text \<open>The errors a Mongoose call rejects with, and their \<open>message\<close>.\<close>

datatype store_error =
    ValidationError "string list"
  | CastError string
  | MongoError string

fun required_text :: "string list \<Rightarrow> string" where
  "required_text [] = []"
| "required_text [p] = p @ '': Path '' @ p @ '' is required.''"
| "required_text (p # ps) = p @ '': Path '' @ p @ '' is required., '' @ required_text ps"

fun error_message :: "store_error \<Rightarrow> string" where
  "error_message (ValidationError ps) = ''Validation failed: '' @ required_text ps"
| "error_message (CastError v) = ''Cast to ObjectId failed for value '' @ v"
| "error_message (MongoError m) = m"

subsection \<open>postSchema (lines 19-26)\<close>

text \<open>
  \<open>required: true\<close> on a String path: the value must be a string of non-zero length.
\<close>

definition required_ok :: "string option \<Rightarrow> bool" where
  "required_ok v = (case v of None \<Rightarrow> False | Some s \<Rightarrow> s \<noteq> [])"

text \<open>Casting a body field to the schema type String.\<close>

fun castString :: "jsval \<Rightarrow> string option" where
  "castString Undefined = None"
| "castString Null = None"
| "castString (Str s) = Some s"

text \<open>
  Document validation, run by \<open>save\<close>: the paths whose \<open>required\<close> validator fails.
\<close>

definition validate_doc :: "post \<Rightarrow> string list" where
  "validate_doc d =
     (if required_ok (p_title d) then [] else [''title'']) @
     (if required_ok (p_content d) then [] else [''content''])"

text \<open>
  \<open>new Post({title, content, author})\<close>: casts the fields, applies the default
  \<open>'Anonymous'\<close> to an undefined author and generates the \<open>_id\<close>. The timestamps are
  filled in by \<open>save\<close>.
\<close>

definition new_Post :: "jsval \<Rightarrow> jsval \<Rightarrow> jsval \<Rightarrow> store \<Rightarrow> post \<times> store" where
  "new_Post t c a s =
     (\<lparr>p_id = next_id s,
       p_title = castString t,
       p_content = castString c,
       p_author = (if a = Undefined then Some ''Anonymous'' else castString a),
       createdAt = 0,
       updatedAt = 0\<rparr>,
      s\<lparr>next_id := Suc (next_id s)\<rparr>)"

text \<open>
  \<open>post.save()\<close>: validates the document, stamps \<open>createdAt\<close> and \<open>updatedAt\<close>
  (\<open>timestamps: true\<close>) and inserts it; the database rejects a duplicate \<open>_id\<close>.
\<close>

definition save :: "env \<Rightarrow> post \<Rightarrow> store \<Rightarrow> (store_error + post) \<times> store" where
  "save e d s =
     (let s1 = s\<lparr>storage_calls := Suc (storage_calls s)\<rparr> in
      if validate_doc d \<noteq> [] then (Inl (ValidationError (validate_doc d)), s1)
      else case fault e of
        Some m \<Rightarrow> (Inl (MongoError m), s1)
      | None \<Rightarrow>
          if p_id d \<in> set (map p_id (posts s))
          then (Inl (MongoError ''E11000 duplicate key error''), s1)
          else let saved = d\<lparr>createdAt := now e, updatedAt := now e\<rparr>
               in (Inr saved, s1\<lparr>posts := posts s @ [saved]\<rparr>))"

subsection \<open>Queries\<close>

text \<open>
  \<open>Post.find().sort({ createdAt: -1 })\<close>: every document, latest first (an insertion
  sort on \<open>createdAt\<close>, descending).
\<close>

fun insert_desc :: "post \<Rightarrow> post list \<Rightarrow> post list" where
  "insert_desc p [] = [p]"
| "insert_desc p (q # qs) =
     (if createdAt q \<le> createdAt p then p # q # qs else q # insert_desc p qs)"

fun sort_desc :: "post list \<Rightarrow> post list" where
  "sort_desc [] = []"
| "sort_desc (p # ps) = insert_desc p (sort_desc ps)"

definition find_sorted :: "env \<Rightarrow> store \<Rightarrow> (store_error + post list) \<times> store" where
  "find_sorted e s =
     (let s1 = s\<lparr>storage_calls := Suc (storage_calls s)\<rparr> in
      case fault e of
        Some m \<Rightarrow> (Inl (MongoError m), s1)
      | None \<Rightarrow> (Inr (sort_desc (posts s)), s1))"

text \<open>
  Casting the \<open>:id\<close> path parameter to an ObjectId: 24 hexadecimal characters, read as
  a number; anything else is a CastError.
\<close>

definition hex_digit :: "char \<Rightarrow> nat option" where
  "hex_digit ch =
     (let n = (of_char ch :: nat) in
      if 48 \<le> n \<and> n \<le> 57 then Some (n - 48)
      else if 97 \<le> n \<and> n \<le> 102 then Some (n - 87)
      else if 65 \<le> n \<and> n \<le> 70 then Some (n - 55)
      else None)"

fun hex_value :: "nat \<Rightarrow> string \<Rightarrow> nat option" where
  "hex_value acc [] = Some acc"
| "hex_value acc (ch # cs) =
     (case hex_digit ch of None \<Rightarrow> None | Some d \<Rightarrow> hex_value (16 * acc + d) cs)"

definition castObjectId :: "string \<Rightarrow> nat option" where
  "castObjectId s = (if length s = 24 then hex_value 0 s else None)"

text \<open>
  The update \<open>{ title, content, author }\<close> after Mongoose has cast it: a key whose value
  is \<open>undefined\<close> is removed from the update, so the stored value stays; \<open>null\<close> and
  strings are set.
\<close>

fun set_field :: "jsval \<Rightarrow> string option \<Rightarrow> string option" where
  "set_field Undefined old = old"
| "set_field Null old = None"
| "set_field (Str s) old = Some s"

text \<open>
  \<open>runValidators: true\<close>: the validators of the paths present in the update run on the
  new values, before the query is sent.
\<close>

definition validate_update :: "jsval \<Rightarrow> jsval \<Rightarrow> string list" where
  "validate_update t c =
     (if t = Undefined \<or> required_ok (castString t) then [] else [''title'']) @
     (if c = Undefined \<or> required_ok (castString c) then [] else [''content''])"

definition apply_update :: "jsval \<Rightarrow> jsval \<Rightarrow> jsval \<Rightarrow> nat \<Rightarrow> post \<Rightarrow> post" where
  "apply_update t c a time r =
     r\<lparr>p_title := set_field t (p_title r),
       p_content := set_field c (p_content r),
       p_author := set_field a (p_author r),
       updatedAt := time\<rparr>"

text \<open>Replacing, respectively removing, the first document with a given \<open>_id\<close>.\<close>

fun replace_first :: "nat \<Rightarrow> post \<Rightarrow> post list \<Rightarrow> post list" where
  "replace_first i r' [] = []"
| "replace_first i r' (r # rs) = (if p_id r = i then r' # rs else r # replace_first i r' rs)"

fun remove_first :: "nat \<Rightarrow> post list \<Rightarrow> post list" where
  "remove_first i [] = []"
| "remove_first i (r # rs) = (if p_id r = i then rs else r # remove_first i rs)"

text \<open>
  \<open>Post.findByIdAndUpdate(id, { title, content, author }, { new: true, runValidators:
  true })\<close>: resolves to the document after the update (\<open>new: true\<close>), or to \<open>null\<close>
  when no document has that \<open>_id\<close>; \<open>updatedAt\<close> is set by \<open>timestamps: true\<close>.
\<close>

definition findByIdAndUpdate ::
  "env \<Rightarrow> string \<Rightarrow> jsval \<Rightarrow> jsval \<Rightarrow> jsval \<Rightarrow> store \<Rightarrow> (store_error + post option) \<times> store" where
  "findByIdAndUpdate e ident t c a s =
     (let s1 = s\<lparr>storage_calls := Suc (storage_calls s)\<rparr> in
      case castObjectId ident of
        None \<Rightarrow> (Inl (CastError ident), s1)
      | Some i \<Rightarrow>
          if validate_update t c \<noteq> [] then (Inl (ValidationError (validate_update t c)), s1)
          else case fault e of
            Some m \<Rightarrow> (Inl (MongoError m), s1)
          | None \<Rightarrow>
              (case find (\<lambda>r. p_id r = i) (posts s) of
                 None \<Rightarrow> (Inr None, s1)
               | Some r \<Rightarrow>
                   let r' = apply_update t c a (now e) r
                   in (Inr (Some r'), s1\<lparr>posts := replace_first i r' (posts s)\<rparr>)))"

text \<open>
  \<open>Post.findByIdAndDelete(id)\<close>: removes the document with that \<open>_id\<close> and resolves to
  it, or resolves to \<open>null\<close> when there is none.
\<close>

definition findByIdAndDelete ::
  "env \<Rightarrow> string \<Rightarrow> store \<Rightarrow> (store_error + post option) \<times> store" where
  "findByIdAndDelete e ident s =
     (let s1 = s\<lparr>storage_calls := Suc (storage_calls s)\<rparr> in
      case castObjectId ident of
        None \<Rightarrow> (Inl (CastError ident), s1)
      | Some i \<Rightarrow>
          (case fault e of
             Some m \<Rightarrow> (Inl (MongoError m), s1)
           | None \<Rightarrow>
               (case find (\<lambda>r. p_id r = i) (posts s) of
                  None \<Rightarrow> (Inr None, s1)
                | Some r \<Rightarrow> (Inr (Some r), s1\<lparr>posts := remove_first i (posts s)\<rparr>))))"

subsection \<open>Responses\<close>

text \<open>
  The status code and the keys of the JSON envelope a handler sends; a key the handler
  does not write is \<open>None\<close>. The envelope's \<open>error\<close> key is the caught error's
  \<open>message\<close>; \<open>posts_out\<close> is its \<open>posts\<close> key.
\<close>

record response =
  status :: nat
  success :: "bool option"
  message :: "string option"
  error :: "string option"
  post :: "post option"
  posts_out :: "post list option"

text \<open>The \<open>catch\<close> branch of the create, update and delete handlers.\<close>

definition server_error :: "store_error \<Rightarrow> response" where
  "server_error e =
     \<lparr>status = 500, success = Some False, message = Some ''Server error'',
      error = Some (error_message e), post = None, posts_out = None\<rparr>"

text \<open>The \<open>catch\<close> branch of the list handler (lines 82-87): no \<open>message\<close> key.\<close>

definition list_error :: "store_error \<Rightarrow> response" where
  "list_error e =
     \<lparr>status = 500, success = Some False, message = None,
      error = Some (error_message e), post = None, posts_out = None\<rparr>"

definition not_found :: response where
  "not_found =
     \<lparr>status = 404, success = Some False, message = Some ''Post not found'',
      error = None, post = None, posts_out = None\<rparr>"

definition ok_post :: "nat \<Rightarrow> string \<Rightarrow> post \<Rightarrow> response" where
  "ok_post code msg p =
     \<lparr>status = code, success = Some True, message = Some msg,
      error = None, post = Some p, posts_out = None\<rparr>"

subsection \<open>Handlers\<close>

text \<open>\<open>app.post('/api/posts')\<close>, lines 35-72.\<close>

definition post_api_posts :: "env \<Rightarrow> body \<Rightarrow> store \<Rightarrow> response \<times> store" where
  "post_api_posts e b s =
     (if \<not> truthy (b_title b) \<or> \<not> truthy (b_content b)
      then (\<lparr>status = 400, success = Some False,
             message = Some ''Title and content are required'',
             error = None, post = None, posts_out = None\<rparr>, s)
      else
        let (d, s1) = new_Post (b_title b) (b_content b)
                        (js_or (b_author b) (Str ''Anonymous'')) s
        in case save e d s1 of
             (Inl err, s2) \<Rightarrow> (server_error err, s2)
           | (Inr savedPost, s2) \<Rightarrow> (ok_post 201 ''Post created successfully!'' savedPost, s2))"

text \<open>\<open>app.get('/api/posts')\<close>, lines 78-88.\<close>

definition get_api_posts :: "env \<Rightarrow> store \<Rightarrow> response \<times> store" where
  "get_api_posts e s =
     (case find_sorted e s of
        (Inl err, s1) \<Rightarrow> (list_error err, s1)
      | (Inr ps, s1) \<Rightarrow>
          (\<lparr>status = 200, success = Some True, message = None,
            error = None, post = None, posts_out = Some ps\<rparr>, s1))"

text \<open>\<open>app.put('/api/posts/:id')\<close>, lines 94-127.\<close>

definition put_api_posts_id :: "env \<Rightarrow> string \<Rightarrow> body \<Rightarrow> store \<Rightarrow> response \<times> store" where
  "put_api_posts_id e ident b s =
     (case findByIdAndUpdate e ident (b_title b) (b_content b) (b_author b) s of
        (Inl err, s1) \<Rightarrow> (server_error err, s1)
      | (Inr None, s1) \<Rightarrow> (not_found, s1)
      | (Inr (Some updatedPost), s1) \<Rightarrow>
          (ok_post 200 ''Post updated successfully!'' updatedPost, s1))"

text \<open>\<open>app.delete('/api/posts/:id')\<close>, lines 133-161.\<close>

definition delete_api_posts_id :: "env \<Rightarrow> string \<Rightarrow> store \<Rightarrow> response \<times> store" where
  "delete_api_posts_id e ident s =
     (case findByIdAndDelete e ident s of
        (Inl err, s1) \<Rightarrow> (server_error err, s1)
      | (Inr None, s1) \<Rightarrow> (not_found, s1)
      | (Inr (Some deletedPost), s1) \<Rightarrow>
          (ok_post 200 ''Post deleted successfully!'' deletedPost, s1))"

text \<open>\<open>app.get('/')\<close>, lines 167-169.\<close>

definition get_root :: "store \<Rightarrow> response \<times> store" where
  "get_root s =
     (\<lparr>status = 200, success = None,
       message = Some ''Simple CRUD API running! Use /api/posts'',
       error = None, post = None, posts_out = None\<rparr>, s)"

subsection \<open>Request router\<close>

datatype request =
    Create env body
  | List env
  | Update env string body
  | Delete env string
  | Root

fun handle :: "request \<Rightarrow> store \<Rightarrow> response \<times> store" where
  "handle (Create e b) s = post_api_posts e b s"
| "handle (List e) s = get_api_posts e s"
| "handle (Update e ident b) s = put_api_posts_id e ident b s"
| "handle (Delete e ident) s = delete_api_posts_id e ident s"
| "handle Root s = get_root s"

text \<open>The store after a sequence of requests.\<close>

fun run :: "request list \<Rightarrow> store \<Rightarrow> store" where
  "run [] s = s"
| "run (r # rs) s = run rs (snd (handle r s))"

subsection \<open>Store invariants\<close>

text \<open>What the schema asks of a stored document: both required paths are non-empty.\<close>

definition stored_ok :: "post \<Rightarrow> bool" where
  "stored_ok r = (required_ok (p_title r) \<and> required_ok (p_content r))"

text \<open>
  The \<open>_id\<close>s of a store are pairwise different and all came from the generator.
\<close>

definition ids_ok :: "store \<Rightarrow> bool" where
  "ids_ok s = (distinct (map p_id (posts s)) \<and> (\<forall>i\<in>set (map p_id (posts s)). i < next_id s))"

section \<open>Properties\<close>

subsection \<open>Auxiliary facts\<close>

lemma required_ok_iff: "required_ok v \<longleftrightarrow> v \<noteq> None \<and> v \<noteq> Some []"
  by (cases v) (auto simp: required_ok_def)

lemma truthy_iff: "truthy v \<longleftrightarrow> (\<exists>s. v = Str s \<and> s \<noteq> [])"
  by (cases v) auto

lemma validate_doc_Nil: "validate_doc d = [] \<longleftrightarrow> required_ok (p_title d) \<and> required_ok (p_content d)"
  by (simp add: validate_doc_def)

lemma validate_update_Nil:
  "validate_update t c = [] \<longleftrightarrow> t \<noteq> Null \<and> t \<noteq> Str [] \<and> c \<noteq> Null \<and> c \<noteq> Str []"
  by (cases t; cases c) (auto simp: validate_update_def required_ok_def)

lemma find_split:
  "find (\<lambda>r. p_id r = i) xs = Some r \<Longrightarrow>
   \<exists>as bs. xs = as @ r # bs \<and> p_id r = i \<and> (\<forall>a\<in>set as. p_id a \<noteq> i) \<and>
     replace_first i r' xs = as @ r' # bs \<and> remove_first i xs = as @ bs"
proof (induction xs)
  case Nil
  then show ?case by simp
next
  case (Cons x xs)
  show ?case
  proof (cases "p_id x = i")
    case True
    with Cons.prems have "x = r" by simp
    with True show ?thesis by (intro exI[of _ "[]"] exI[of _ xs]) simp
  next
    case False
    with Cons.prems have "find (\<lambda>r. p_id r = i) xs = Some r" by simp
    from Cons.IH[OF this] obtain as bs where
      "xs = as @ r # bs" "p_id r = i" "\<forall>a\<in>set as. p_id a \<noteq> i"
      "replace_first i r' xs = as @ r' # bs" "remove_first i xs = as @ bs" by blast
    with False show ?thesis by (intro exI[of _ "x # as"] exI[of _ bs]) simp
  qed
qed

lemma find_id_None: "find (\<lambda>r. p_id r = i) xs = None \<longleftrightarrow> i \<notin> p_id ` set xs"
  by (induction xs) auto

lemma find_id_distinct:
  "distinct (map p_id xs) \<Longrightarrow> r \<in> set xs \<Longrightarrow> find (\<lambda>x. p_id x = p_id r) xs = Some r"
  by (induction xs) (auto simp: image_iff)

lemma remove_first_filter:
  "distinct (map p_id xs) \<Longrightarrow> remove_first i xs = filter (\<lambda>x. p_id x \<noteq> i) xs"
proof (induction xs)
  case Nil
  then show ?case by simp
next
  case (Cons x xs)
  then have "p_id x = i \<Longrightarrow> filter (\<lambda>y. p_id y \<noteq> i) xs = xs"
    by (auto simp: filter_id_conv image_iff)
  with Cons show ?case by simp
qed

lemma mset_insert_desc: "mset (insert_desc p qs) = add_mset p (mset qs)"
  by (induction qs) auto

lemma mset_sort_desc: "mset (sort_desc ps) = mset ps"
  by (induction ps) (auto simp: mset_insert_desc)

lemma set_insert_desc: "set (insert_desc p qs) = insert p (set qs)"
  by (induction qs) auto

lemma sorted_insert_desc:
  "sorted_wrt (\<lambda>a b. createdAt b \<le> createdAt a) qs \<Longrightarrow>
   sorted_wrt (\<lambda>a b. createdAt b \<le> createdAt a) (insert_desc p qs)"
  by (induction qs) (auto simp: set_insert_desc)

lemma sorted_sort_desc: "sorted_wrt (\<lambda>a b. createdAt b \<le> createdAt a) (sort_desc ps)"
  by (induction ps) (auto simp: sorted_insert_desc)

lemma set_replace_first: "set (replace_first i r' xs) \<subseteq> insert r' (set xs)"
  by (induction xs) auto

lemma set_remove_first: "set (remove_first i xs) \<subseteq> set xs"
  by (induction xs) auto

lemma ids_replace_first: "p_id r' = i \<Longrightarrow> map p_id (replace_first i r' xs) = map p_id xs"
  by (induction xs) auto

lemma distinct_remove_first: "distinct (map p_id xs) \<Longrightarrow> distinct (map p_id (remove_first i xs))"
  by (induction xs) (use set_remove_first in \<open>auto simp: image_iff\<close>)

lemma set_field_ok:
  "required_ok old \<Longrightarrow> v = Undefined \<or> required_ok (castString v) \<Longrightarrow> required_ok (set_field v old)"
  by (cases v) (auto simp: required_ok_def)

lemma apply_update_ok:
  assumes "stored_ok r" "validate_update t c = []"
  shows "stored_ok (apply_update t c a u r)"
  using assms
  by (auto simp: stored_ok_def apply_update_def validate_update_def intro!: set_field_ok
      split: if_splits)

lemma post_posts:
  "posts (snd (post_api_posts e b s)) = posts s \<or>
   (\<exists>d. validate_doc d = [] \<and> p_id d = next_id s \<and> next_id s \<notin> p_id ` set (posts s) \<and>
     posts (snd (post_api_posts e b s)) = posts s @ [d\<lparr>createdAt := now e, updatedAt := now e\<rparr>])"
  by (auto simp: post_api_posts_def new_Post_def save_def Let_def split: option.splits)

lemma get_posts: "posts (snd (get_api_posts e s)) = posts s"
  by (auto simp: get_api_posts_def find_sorted_def Let_def split: option.splits)

lemma put_posts:
  "posts (snd (put_api_posts_id e ident b s)) = posts s \<or>
   (\<exists>i r. find (\<lambda>x. p_id x = i) (posts s) = Some r \<and>
      validate_update (b_title b) (b_content b) = [] \<and>
      posts (snd (put_api_posts_id e ident b s)) =
        replace_first i (apply_update (b_title b) (b_content b) (b_author b) (now e) r) (posts s))"
  by (auto simp: put_api_posts_id_def findByIdAndUpdate_def Let_def split: option.splits)

lemma delete_posts:
  "posts (snd (delete_api_posts_id e ident s)) = posts s \<or>
   (\<exists>i. posts (snd (delete_api_posts_id e ident s)) = remove_first i (posts s))"
  by (auto simp: delete_api_posts_id_def findByIdAndDelete_def Let_def split: option.splits)

lemma handle_stored_ok:
  assumes "\<forall>r\<in>set (posts s). stored_ok r"
  shows "\<forall>r\<in>set (posts (snd (handle q s))). stored_ok r"
proof (cases q)
  case (Create e b)
  from post_posts[of e b s] show ?thesis
  proof
    assume "posts (snd (post_api_posts e b s)) = posts s"
    with assms Create show ?thesis by simp
  next
    assume "\<exists>d. validate_doc d = [] \<and> p_id d = next_id s \<and> next_id s \<notin> p_id ` set (posts s) \<and>
      posts (snd (post_api_posts e b s)) = posts s @ [d\<lparr>createdAt := now e, updatedAt := now e\<rparr>]"
    then obtain d where "validate_doc d = []"
      "posts (snd (post_api_posts e b s)) = posts s @ [d\<lparr>createdAt := now e, updatedAt := now e\<rparr>]"
      by blast
    with assms Create show ?thesis by (auto simp: stored_ok_def validate_doc_Nil)
  qed
next
  case (List e)
  with assms show ?thesis by (simp add: get_posts)
next
  case (Update e ident b)
  from put_posts[of e ident b s] show ?thesis
  proof
    assume "posts (snd (put_api_posts_id e ident b s)) = posts s"
    with assms Update show ?thesis by simp
  next
    assume "\<exists>i r. find (\<lambda>x. p_id x = i) (posts s) = Some r \<and>
      validate_update (b_title b) (b_content b) = [] \<and>
      posts (snd (put_api_posts_id e ident b s)) =
        replace_first i (apply_update (b_title b) (b_content b) (b_author b) (now e) r) (posts s)"
    then obtain i r where f: "find (\<lambda>x. p_id x = i) (posts s) = Some r"
      and v: "validate_update (b_title b) (b_content b) = []"
      and p: "posts (snd (put_api_posts_id e ident b s)) =
        replace_first i (apply_update (b_title b) (b_content b) (b_author b) (now e) r) (posts s)"
      by blast
    from f have "r \<in> set (posts s)" by (auto simp: find_Some_iff)
    with assms have "stored_ok r" by blast
    from apply_update_ok[OF this v]
    have "stored_ok (apply_update (b_title b) (b_content b) (b_author b) (now e) r)" .
    with assms p Update set_replace_first show ?thesis by fastforce
  qed
next
  case (Delete e ident)
  from delete_posts[of e ident s] assms Delete set_remove_first show ?thesis by fastforce
next
  case Root
  with assms show ?thesis by (simp add: get_root_def)
qed

lemma run_stored_ok:
  "\<forall>r\<in>set (posts s). stored_ok r \<Longrightarrow> \<forall>r\<in>set (posts (run qs s)). stored_ok r"
proof (induction qs arbitrary: s)
  case Nil
  then show ?case by simp
next
  case (Cons q qs)
  from Cons.IH[OF handle_stored_ok[OF Cons.prems]] show ?case by simp
qed

lemma next_id_mono: "next_id s \<le> next_id (snd (handle q s))"
  by (cases q)
     (auto simp: post_api_posts_def new_Post_def save_def get_api_posts_def find_sorted_def
       put_api_posts_id_def findByIdAndUpdate_def delete_api_posts_id_def findByIdAndDelete_def
       get_root_def Let_def split: option.splits)

lemma post_next_id:
  "posts (snd (post_api_posts e b s)) \<noteq> posts s \<Longrightarrow> next_id (snd (post_api_posts e b s)) = Suc (next_id s)"
  by (auto simp: post_api_posts_def new_Post_def save_def Let_def split: option.splits if_splits)

lemma handle_ids_ok:
  assumes "ids_ok s"
  shows "ids_ok (snd (handle q s))"
proof -
  from assms have d: "distinct (map p_id (posts s))" and
    b: "\<forall>i\<in>set (map p_id (posts s)). i < next_id s" by (auto simp: ids_ok_def)
  show ?thesis
  proof (cases q)
    case (Create e b')
    from post_posts[of e b' s] show ?thesis
    proof
      assume "posts (snd (post_api_posts e b' s)) = posts s"
      with d b next_id_mono[of s q] Create show ?thesis by (fastforce simp: ids_ok_def)
    next
      assume "\<exists>d. validate_doc d = [] \<and> p_id d = next_id s \<and> next_id s \<notin> p_id ` set (posts s) \<and>
        posts (snd (post_api_posts e b' s)) = posts s @ [d\<lparr>createdAt := now e, updatedAt := now e\<rparr>]"
      then obtain x where x: "p_id x = next_id s" "next_id s \<notin> p_id ` set (posts s)"
        "posts (snd (post_api_posts e b' s)) = posts s @ [x\<lparr>createdAt := now e, updatedAt := now e\<rparr>]"
        by blast
      then have "next_id (snd (post_api_posts e b' s)) = Suc (next_id s)"
        by (intro post_next_id) simp
      with x d b Create show ?thesis by (auto simp: ids_ok_def less_Suc_eq)
    qed
  next
    case (List e)
    with d b next_id_mono[of s q] show ?thesis by (fastforce simp: ids_ok_def get_posts)
  next
    case (Update e ident b')
    from put_posts[of e ident b' s] show ?thesis
    proof
      assume "posts (snd (put_api_posts_id e ident b' s)) = posts s"
      with d b next_id_mono[of s q] Update show ?thesis by (fastforce simp: ids_ok_def)
    next
      assume "\<exists>i r. find (\<lambda>x. p_id x = i) (posts s) = Some r \<and>
        validate_update (b_title b') (b_content b') = [] \<and>
        posts (snd (put_api_posts_id e ident b' s)) =
          replace_first i (apply_update (b_title b') (b_content b') (b_author b') (now e) r) (posts s)"
      then obtain i r where f: "find (\<lambda>x. p_id x = i) (posts s) = Some r"
        and p: "posts (snd (put_api_posts_id e ident b' s)) =
          replace_first i (apply_update (b_title b') (b_content b') (b_author b') (now e) r) (posts s)"
        by blast
      from f have "p_id r = i" by (auto simp: find_Some_iff)
      then have "p_id (apply_update (b_title b') (b_content b') (b_author b') (now e) r) = i"
        by (simp add: apply_update_def)
      from ids_replace_first[OF this] p
      have m: "map p_id (posts (snd (put_api_posts_id e ident b' s))) = map p_id (posts s)" by simp
      with d b next_id_mono[of s q] Update show ?thesis
        unfolding ids_ok_def by fastforce
    qed
  next
    case (Delete e ident)
    from delete_posts[of e ident s] d b next_id_mono[of s q] Delete
      distinct_remove_first[OF d] set_remove_first
    show ?thesis by (fastforce simp: ids_ok_def)
  next
    case Root
    with assms show ?thesis by (simp add: get_root_def)
  qed
qed

lemma run_ids_ok: "ids_ok s \<Longrightarrow> ids_ok (run qs s)"
  by (induction qs arbitrary: s) (simp_all add: handle_ids_ok)

lemma reachable_ids_ok: "ids_ok (run qs empty_store)"
  by (rule run_ids_ok) (simp add: ids_ok_def empty_store_def)

lemma cast_id_0: "castObjectId ''000000000000000000000000'' = Some 0"
  by (simp add: castObjectId_def hex_digit_def)

lemma cast_id_1: "castObjectId ''000000000000000000000001'' = Some 1"
  by (simp add: castObjectId_def hex_digit_def)

subsection \<open>Creating a post\<close>

text \<open>
  C1. A create request whose body carries a non-empty title and a non-empty content is
  answered with status 201 and the saved record: its \<open>_id\<close> is the one just generated
  (no stored record has it), title and content are the given ones, and the author is the
  given one, or \<open>Anonymous\<close> when the author was absent, null or empty. The record is
  appended to the collection. The database is taken not to fail the call (that case is
  C9), and the ids already stored are ids the generator has handed out.
\<close>

theorem create_valid_returns_201:
  assumes "b_title b = Str t" "t \<noteq> []" "b_content b = Str c" "c \<noteq> []"
    and "fault e = None"
    and "\<forall>r\<in>set (posts s). p_id r < next_id s"
  shows "\<exists>p. status (fst (post_api_posts e b s)) = 201 \<and>
             success (fst (post_api_posts e b s)) = Some True \<and>
             post (fst (post_api_posts e b s)) = Some p \<and>
             posts (snd (post_api_posts e b s)) = posts s @ [p] \<and>
             p_id p = next_id s \<and> p_id p \<notin> p_id ` set (posts s) \<and>
             p_title p = Some t \<and> p_content p = Some c \<and>
             p_author p = (if truthy (b_author b) then castString (b_author b)
                           else Some ''Anonymous'')"
proof -
  from assms(6) have "next_id s \<notin> p_id ` set (posts s)" by auto
  with assms(1-5) show ?thesis
    by (simp add: post_api_posts_def new_Post_def save_def js_or_def validate_doc_def
        required_ok_def ok_post_def Let_def)
qed

theorem create_valid_returns_201_witness:
  "b_title \<lparr>b_title = Str ''A'', b_content = Str ''B'', b_author = Undefined\<rparr> = Str ''A'' \<and>
   fault \<lparr>now = 9, fault = None\<rparr> = None \<and>
   (\<exists>p. status (fst (post_api_posts \<lparr>now = 9, fault = None\<rparr>
            \<lparr>b_title = Str ''A'', b_content = Str ''B'', b_author = Undefined\<rparr>
            \<lparr>posts = [\<lparr>p_id = 0, p_title = Some ''T'', p_content = Some ''U'',
                       p_author = Some ''X'', createdAt = 5, updatedAt = 5\<rparr>],
             next_id = 1, storage_calls = 1\<rparr>)) = 201 \<and>
        post (fst (post_api_posts \<lparr>now = 9, fault = None\<rparr>
            \<lparr>b_title = Str ''A'', b_content = Str ''B'', b_author = Undefined\<rparr>
            \<lparr>posts = [\<lparr>p_id = 0, p_title = Some ''T'', p_content = Some ''U'',
                       p_author = Some ''X'', createdAt = 5, updatedAt = 5\<rparr>],
             next_id = 1, storage_calls = 1\<rparr>)) = Some p \<and>
        p_id p = 1 \<and> p_title p = Some ''A'' \<and> p_content p = Some ''B'' \<and>
        p_author p = Some ''Anonymous'')"
  using create_valid_returns_201[of
      "\<lparr>b_title = Str ''A'', b_content = Str ''B'', b_author = Undefined\<rparr>" "''A''" "''B''"
      "\<lparr>now = 9, fault = None\<rparr>"
      "\<lparr>posts = [\<lparr>p_id = 0, p_title = Some ''T'', p_content = Some ''U'',
                 p_author = Some ''X'', createdAt = 5, updatedAt = 5\<rparr>],
        next_id = 1, storage_calls = 1\<rparr>"]
  by auto

text \<open>
  C4. A create request whose title or content is missing (or null, or empty: whatever
  \<open>!title || !content\<close> accepts) is answered with status 400 and \<open>success: false\<close>,
  and the state is returned as it was: no record is added, no id is generated, and the
  count of storage calls is the same.
\<close>

theorem create_missing_field_returns_400:
  assumes "\<not> truthy (b_title b) \<or> \<not> truthy (b_content b)"
  shows "status (fst (post_api_posts e b s)) = 400 \<and>
         success (fst (post_api_posts e b s)) = Some False \<and>
         message (fst (post_api_posts e b s)) = Some ''Title and content are required'' \<and>
         post (fst (post_api_posts e b s)) = None \<and>
         snd (post_api_posts e b s) = s \<and>
         posts (snd (post_api_posts e b s)) = posts s \<and>
         storage_calls (snd (post_api_posts e b s)) = storage_calls s"
  using assms by (auto simp: post_api_posts_def)

theorem create_missing_field_returns_400_witness:
  "\<not> truthy (b_title \<lparr>b_title = Undefined, b_content = Str ''B'', b_author = Undefined\<rparr>) \<and>
   status (fst (post_api_posts \<lparr>now = 5, fault = None\<rparr>
      \<lparr>b_title = Undefined, b_content = Str ''B'', b_author = Undefined\<rparr> empty_store)) = 400 \<and>
   snd (post_api_posts \<lparr>now = 5, fault = None\<rparr>
      \<lparr>b_title = Undefined, b_content = Str ''B'', b_author = Undefined\<rparr> empty_store) =
     empty_store"
  using create_missing_field_returns_400[of
      "\<lparr>b_title = Undefined, b_content = Str ''B'', b_author = Undefined\<rparr>"
      "\<lparr>now = 5, fault = None\<rparr>" empty_store]
  by simp

subsection \<open>Listing\<close>

text \<open>
  C5. When the database does not fail the call, the list request is answered with
  status 200 and a sequence that holds every stored record exactly once, ordered by
  \<open>createdAt\<close> from the latest to the earliest; for an empty collection the sequence
  is empty. The collection itself is not changed.
\<close>

theorem list_latest_first:
  assumes "fault e = None"
  shows "status (fst (get_api_posts e s)) = 200 \<and>
         success (fst (get_api_posts e s)) = Some True \<and>
         (\<exists>ps. posts_out (fst (get_api_posts e s)) = Some ps \<and>
               mset ps = mset (posts s) \<and>
               sorted_wrt (\<lambda>a b. createdAt b \<le> createdAt a) ps \<and>
               (posts s = [] \<longrightarrow> ps = [])) \<and>
         posts (snd (get_api_posts e s)) = posts s"
  using assms
  by (simp add: get_api_posts_def find_sorted_def mset_sort_desc sorted_sort_desc)

theorem list_latest_first_witness:
  "fault \<lparr>now = 20, fault = None\<rparr> = None \<and>
   (\<exists>ps. posts_out (fst (get_api_posts \<lparr>now = 20, fault = None\<rparr>
       \<lparr>posts = [\<lparr>p_id = 0, p_title = Some ''A'', p_content = Some ''B'', p_author = Some ''X'',
                  createdAt = 5, updatedAt = 5\<rparr>,
                 \<lparr>p_id = 1, p_title = Some ''C'', p_content = Some ''D'', p_author = Some ''Y'',
                  createdAt = 9, updatedAt = 9\<rparr>], next_id = 2, storage_calls = 2\<rparr>)) = Some ps \<and>
     mset ps = mset [\<lparr>p_id = 0, p_title = Some ''A'', p_content = Some ''B'', p_author = Some ''X'',
                  createdAt = 5, updatedAt = 5\<rparr>,
                 \<lparr>p_id = 1, p_title = Some ''C'', p_content = Some ''D'', p_author = Some ''Y'',
                  createdAt = 9, updatedAt = 9\<rparr>] \<and>
     sorted_wrt (\<lambda>a b. createdAt b \<le> createdAt a) ps)"
  using list_latest_first[of "\<lparr>now = 20, fault = None\<rparr>"
       "\<lparr>posts = [\<lparr>p_id = 0, p_title = Some ''A'', p_content = Some ''B'', p_author = Some ''X'',
                  createdAt = 5, updatedAt = 5\<rparr>,
                 \<lparr>p_id = 1, p_title = Some ''C'', p_content = Some ''D'', p_author = Some ''Y'',
                  createdAt = 9, updatedAt = 9\<rparr>], next_id = 2, storage_calls = 2\<rparr>"]
  by simp

subsection \<open>Updating a post\<close>

text \<open>
  C2, as the code has it. An update of an existing id, with no null or empty title or
  content in the body and the database not failing the call, is answered with status 200
  and the updated record, which is in the collection: each of title, content and author
  that the body supplies is written, each one the body omits keeps its stored value, and
  \<open>updatedAt\<close> becomes the time of the request.
\<close>

theorem update_writes_supplied_fields:
  assumes "castObjectId ident = Some (p_id r)" "r \<in> set (posts s)"
    and "distinct (map p_id (posts s))"
    and "b_title b \<noteq> Null" "b_title b \<noteq> Str []" "b_content b \<noteq> Null" "b_content b \<noteq> Str []"
    and "fault e = None"
  shows "\<exists>r'. status (fst (put_api_posts_id e ident b s)) = 200 \<and>
     post (fst (put_api_posts_id e ident b s)) = Some r' \<and>
     r' \<in> set (posts (snd (put_api_posts_id e ident b s))) \<and>
     p_id r' = p_id r \<and>
     p_title r' = (if b_title b = Undefined then p_title r else castString (b_title b)) \<and>
     p_content r' = (if b_content b = Undefined then p_content r else castString (b_content b)) \<and>
     p_author r' = (if b_author b = Undefined then p_author r else castString (b_author b)) \<and>
     updatedAt r' = now e"
proof -
  have f: "find (\<lambda>x. p_id x = p_id r) (posts s) = Some r"
    using assms(2,3) by (rule find_id_distinct[rotated])
  have v: "validate_update (b_title b) (b_content b) = []"
    using assms(4-7) by (simp add: validate_update_Nil)
  let ?r' = "apply_update (b_title b) (b_content b) (b_author b) (now e) r"
  from find_split[OF f, of ?r'] obtain as bs where
    rf: "replace_first (p_id r) ?r' (posts s) = as @ ?r' # bs" by blast
  have fields: "set_field v old = (if v = Undefined then old else castString v)" for v old
    by (cases v) simp_all
  have put: "put_api_posts_id e ident b s =
      (ok_post 200 ''Post updated successfully!'' ?r',
       s\<lparr>storage_calls := Suc (storage_calls s), posts := as @ ?r' # bs\<rparr>)"
    using assms(1,8) f v rf
    by (simp add: put_api_posts_id_def findByIdAndUpdate_def Let_def)
  have "p_id ?r' = p_id r \<and>
     p_title ?r' = (if b_title b = Undefined then p_title r else castString (b_title b)) \<and>
     p_content ?r' = (if b_content b = Undefined then p_content r else castString (b_content b)) \<and>
     p_author ?r' = (if b_author b = Undefined then p_author r else castString (b_author b)) \<and>
     updatedAt ?r' = now e"
    by (simp add: apply_update_def fields)
  with put show ?thesis
    by (intro exI[of _ ?r']) (simp add: ok_post_def)
qed

text \<open>
  The claim as the specification words it (a full replace: an omitted field is written
  as absent) fails. The stored record has title \<open>A\<close> and author \<open>X\<close>; the body carries
  only a content; after the update the stored title is still \<open>A\<close> and the stored author
  still \<open>X\<close>, neither is absent.
\<close>

theorem update_full_replace_counterexample:
  "b_title \<lparr>b_title = Undefined, b_content = Str ''B2'', b_author = Undefined\<rparr> = Undefined \<and>
   b_author \<lparr>b_title = Undefined, b_content = Str ''B2'', b_author = Undefined\<rparr> = Undefined \<and>
   map p_title (posts (snd (put_api_posts_id \<lparr>now = 9, fault = None\<rparr> ''000000000000000000000000''
      \<lparr>b_title = Undefined, b_content = Str ''B2'', b_author = Undefined\<rparr>
      \<lparr>posts = [\<lparr>p_id = 0, p_title = Some ''A'', p_content = Some ''B'', p_author = Some ''X'',
                 createdAt = 5, updatedAt = 5\<rparr>], next_id = 1, storage_calls = 1\<rparr>))) =
     [Some ''A''] \<and>
   map p_author (posts (snd (put_api_posts_id \<lparr>now = 9, fault = None\<rparr> ''000000000000000000000000''
      \<lparr>b_title = Undefined, b_content = Str ''B2'', b_author = Undefined\<rparr>
      \<lparr>posts = [\<lparr>p_id = 0, p_title = Some ''A'', p_content = Some ''B'', p_author = Some ''X'',
                 createdAt = 5, updatedAt = 5\<rparr>], next_id = 1, storage_calls = 1\<rparr>))) =
     [Some ''X'']"
  by code_simp

theorem update_writes_supplied_fields_witness:
  "castObjectId ''000000000000000000000000'' =
     Some (p_id \<lparr>p_id = 0, p_title = Some ''A'', p_content = Some ''B'', p_author = Some ''X'',
                 createdAt = 5, updatedAt = 5\<rparr>) \<and>
   (\<exists>r'. status (fst (put_api_posts_id \<lparr>now = 9, fault = None\<rparr> ''000000000000000000000000''
      \<lparr>b_title = Undefined, b_content = Str ''B2'', b_author = Undefined\<rparr>
      \<lparr>posts = [\<lparr>p_id = 0, p_title = Some ''A'', p_content = Some ''B'', p_author = Some ''X'',
                 createdAt = 5, updatedAt = 5\<rparr>], next_id = 1, storage_calls = 1\<rparr>)) = 200 \<and>
     post (fst (put_api_posts_id \<lparr>now = 9, fault = None\<rparr> ''000000000000000000000000''
      \<lparr>b_title = Undefined, b_content = Str ''B2'', b_author = Undefined\<rparr>
      \<lparr>posts = [\<lparr>p_id = 0, p_title = Some ''A'', p_content = Some ''B'', p_author = Some ''X'',
                 createdAt = 5, updatedAt = 5\<rparr>], next_id = 1, storage_calls = 1\<rparr>)) = Some r' \<and>
     p_title r' = Some ''A'' \<and> p_content r' = Some ''B2'' \<and> p_author r' = Some ''X'' \<and>
     updatedAt r' = 9)"
  using update_writes_supplied_fields[of "''000000000000000000000000''"
      "\<lparr>p_id = 0, p_title = Some ''A'', p_content = Some ''B'', p_author = Some ''X'',
        createdAt = 5, updatedAt = 5\<rparr>"
      "\<lparr>posts = [\<lparr>p_id = 0, p_title = Some ''A'', p_content = Some ''B'', p_author = Some ''X'',
                 createdAt = 5, updatedAt = 5\<rparr>], next_id = 1, storage_calls = 1\<rparr>"
      "\<lparr>b_title = Undefined, b_content = Str ''B2'', b_author = Undefined\<rparr>"
      "\<lparr>now = 9, fault = None\<rparr>"]
  by (auto simp: cast_id_0)

text \<open>
  C6, as the code has it. An update whose id matches no stored record leaves every
  record as it was. It is answered with status 404 when the id is a well-formed
  ObjectId, the body supplies no null or empty title or content, and the database does
  not fail the call; in every other case the answer is status 500. Either way the
  envelope has \<open>success: false\<close>.
\<close>

theorem update_unknown_id:
  assumes "\<forall>r\<in>set (posts s). castObjectId ident \<noteq> Some (p_id r)"
  shows "posts (snd (put_api_posts_id e ident b s)) = posts s \<and>
     status (fst (put_api_posts_id e ident b s)) =
       (if castObjectId ident \<noteq> None \<and> b_title b \<noteq> Null \<and> b_title b \<noteq> Str [] \<and>
           b_content b \<noteq> Null \<and> b_content b \<noteq> Str [] \<and> fault e = None
        then 404 else 500) \<and>
     success (fst (put_api_posts_id e ident b s)) = Some False"
proof (cases "castObjectId ident")
  case None
  then show ?thesis
    by (simp add: put_api_posts_id_def findByIdAndUpdate_def server_error_def)
next
  case (Some i)
  with assms have "i \<notin> p_id ` set (posts s)" by auto
  then have f: "find (\<lambda>r. p_id r = i) (posts s) = None" by (simp add: find_id_None)
  show ?thesis
  proof (cases "validate_update (b_title b) (b_content b) = []")
    case True
    then show ?thesis using Some f
      by (auto simp: put_api_posts_id_def findByIdAndUpdate_def server_error_def not_found_def
          validate_update_Nil split: option.splits)
  next
    case False
    then show ?thesis using Some
      by (auto simp: put_api_posts_id_def findByIdAndUpdate_def server_error_def
          validate_update_Nil)
  qed
qed

text \<open>
  The claim as the specification words it (404 for every id that matches no record)
  fails on an empty collection: a well-formed id with an empty title in the body, and
  the id \<open>abc\<close> with a valid body, are both answered with status 500.
\<close>

theorem update_unknown_id_counterexample:
  "status (fst (put_api_posts_id \<lparr>now = 9, fault = None\<rparr> ''000000000000000000000000''
      \<lparr>b_title = Str [], b_content = Str ''B'', b_author = Undefined\<rparr> empty_store)) = 500 \<and>
   status (fst (put_api_posts_id \<lparr>now = 9, fault = None\<rparr> ''abc''
      \<lparr>b_title = Str ''A'', b_content = Str ''B'', b_author = Undefined\<rparr> empty_store)) = 500"
  by code_simp

theorem update_unknown_id_witness:
  "castObjectId ''000000000000000000000001'' = Some 1 \<and>
   status (fst (put_api_posts_id \<lparr>now = 9, fault = None\<rparr> ''000000000000000000000001''
      \<lparr>b_title = Str ''A2'', b_content = Undefined, b_author = Undefined\<rparr>
      \<lparr>posts = [\<lparr>p_id = 0, p_title = Some ''A'', p_content = Some ''B'', p_author = Some ''X'',
                 createdAt = 5, updatedAt = 5\<rparr>], next_id = 1, storage_calls = 1\<rparr>)) = 404 \<and>
   posts (snd (put_api_posts_id \<lparr>now = 9, fault = None\<rparr> ''000000000000000000000001''
      \<lparr>b_title = Str ''A2'', b_content = Undefined, b_author = Undefined\<rparr>
      \<lparr>posts = [\<lparr>p_id = 0, p_title = Some ''A'', p_content = Some ''B'', p_author = Some ''X'',
                 createdAt = 5, updatedAt = 5\<rparr>], next_id = 1, storage_calls = 1\<rparr>)) =
     [\<lparr>p_id = 0, p_title = Some ''A'', p_content = Some ''B'', p_author = Some ''X'',
                 createdAt = 5, updatedAt = 5\<rparr>]"
  using update_unknown_id[of
      "\<lparr>posts = [\<lparr>p_id = 0, p_title = Some ''A'', p_content = Some ''B'', p_author = Some ''X'',
                 createdAt = 5, updatedAt = 5\<rparr>], next_id = 1, storage_calls = 1\<rparr>"
      "''000000000000000000000001''" "\<lparr>now = 9, fault = None\<rparr>"
      "\<lparr>b_title = Str ''A2'', b_content = Undefined, b_author = Undefined\<rparr>"]
  by (simp add: cast_id_1)

text \<open>
  C7. When an update is answered with status 200, the collection before and after
  differ in one position only: the record whose \<open>_id\<close> is the request's id. The records
  before and after it are the same, and the record at that position, which is the one
  sent back, has the \<open>_id\<close> and the \<open>createdAt\<close> it had; \<open>updatedAt\<close> is the time of
  the request. (A record has no fields but \<open>_id\<close>, title, content, author and the two
  timestamps.)
\<close>

theorem update_changes_only_target:
  assumes "status (fst (put_api_posts_id e ident b s)) = 200"
  shows "\<exists>as r r' bs.
     posts s = as @ r # bs \<and> castObjectId ident = Some (p_id r) \<and>
     posts (snd (put_api_posts_id e ident b s)) = as @ r' # bs \<and>
     post (fst (put_api_posts_id e ident b s)) = Some r' \<and>
     p_id r' = p_id r \<and> createdAt r' = createdAt r \<and> updatedAt r' = now e"
proof -
  let ?upd = "apply_update (b_title b) (b_content b) (b_author b) (now e)"
  from assms obtain i r where
    i: "castObjectId ident = Some i" and
    f: "find (\<lambda>x. p_id x = i) (posts s) = Some r" and
    p: "posts (snd (put_api_posts_id e ident b s)) = replace_first i (?upd r) (posts s)" and
    q: "post (fst (put_api_posts_id e ident b s)) = Some (?upd r)"
    by (auto simp: put_api_posts_id_def findByIdAndUpdate_def server_error_def not_found_def
        ok_post_def Let_def split: option.splits if_splits)
  from find_split[OF f, of "?upd r"] obtain as bs where
    "posts s = as @ r # bs" "p_id r = i" "replace_first i (?upd r) (posts s) = as @ ?upd r # bs"
    by blast
  with i p q have "posts s = as @ r # bs \<and> castObjectId ident = Some (p_id r) \<and>
     posts (snd (put_api_posts_id e ident b s)) = as @ ?upd r # bs \<and>
     post (fst (put_api_posts_id e ident b s)) = Some (?upd r) \<and>
     p_id (?upd r) = p_id r \<and> createdAt (?upd r) = createdAt r \<and> updatedAt (?upd r) = now e"
    by (simp add: apply_update_def)
  then show ?thesis by blast
qed

theorem update_changes_only_target_witness:
  "status (fst (put_api_posts_id \<lparr>now = 9, fault = None\<rparr> ''000000000000000000000001''
      \<lparr>b_title = Str ''C2'', b_content = Undefined, b_author = Undefined\<rparr>
      \<lparr>posts = [\<lparr>p_id = 0, p_title = Some ''A'', p_content = Some ''B'', p_author = Some ''X'',
                  createdAt = 5, updatedAt = 5\<rparr>,
                 \<lparr>p_id = 1, p_title = Some ''C'', p_content = Some ''D'', p_author = Some ''Y'',
                  createdAt = 7, updatedAt = 7\<rparr>], next_id = 2, storage_calls = 2\<rparr>)) = 200 \<and>
   (\<exists>as r r' bs.
      [\<lparr>p_id = 0, p_title = Some ''A'', p_content = Some ''B'', p_author = Some ''X'',
                  createdAt = 5, updatedAt = 5\<rparr>,
                 \<lparr>p_id = 1, p_title = Some ''C'', p_content = Some ''D'', p_author = Some ''Y'',
                  createdAt = 7, updatedAt = 7\<rparr>] = as @ r # bs \<and>
      castObjectId ''000000000000000000000001'' = Some (p_id r) \<and>
      posts (snd (put_api_posts_id \<lparr>now = 9, fault = None\<rparr> ''000000000000000000000001''
      \<lparr>b_title = Str ''C2'', b_content = Undefined, b_author = Undefined\<rparr>
      \<lparr>posts = [\<lparr>p_id = 0, p_title = Some ''A'', p_content = Some ''B'', p_author = Some ''X'',
                  createdAt = 5, updatedAt = 5\<rparr>,
                 \<lparr>p_id = 1, p_title = Some ''C'', p_content = Some ''D'', p_author = Some ''Y'',
                  createdAt = 7, updatedAt = 7\<rparr>], next_id = 2, storage_calls = 2\<rparr>)) =
        as @ r' # bs \<and>
      p_id r' = p_id r \<and> createdAt r' = createdAt r \<and> updatedAt r' = 9)"
proof -
  let ?S = "\<lparr>posts = [\<lparr>p_id = 0, p_title = Some ''A'', p_content = Some ''B'', p_author = Some ''X'',
                  createdAt = 5, updatedAt = 5\<rparr>,
                 \<lparr>p_id = 1, p_title = Some ''C'', p_content = Some ''D'', p_author = Some ''Y'',
                  createdAt = 7, updatedAt = 7\<rparr>], next_id = 2, storage_calls = 2\<rparr>"
  let ?B = "\<lparr>b_title = Str ''C2'', b_content = Undefined, b_author = Undefined\<rparr>"
  have h: "status (fst (put_api_posts_id \<lparr>now = 9, fault = None\<rparr> ''000000000000000000000001''
      ?B ?S)) = 200"
    by code_simp
  from update_changes_only_target[OF h] obtain as r r' bs where
    a: "posts ?S = as @ r # bs" and
    c: "castObjectId ''000000000000000000000001'' = Some (p_id r)" and
    p: "posts (snd (put_api_posts_id \<lparr>now = 9, fault = None\<rparr> ''000000000000000000000001'' ?B ?S))
       = as @ r' # bs" and
    k: "p_id r' = p_id r" "createdAt r' = createdAt r" and
    u: "updatedAt r' = now \<lparr>now = 9, fault = None\<rparr>"
    by blast
  from a have a': "[\<lparr>p_id = 0, p_title = Some ''A'', p_content = Some ''B'', p_author = Some ''X'',
                  createdAt = 5, updatedAt = 5\<rparr>,
                 \<lparr>p_id = 1, p_title = Some ''C'', p_content = Some ''D'', p_author = Some ''Y'',
                  createdAt = 7, updatedAt = 7\<rparr>] = as @ r # bs"
    by simp
  from u have u': "updatedAt r' = 9" by simp
  from h a' c p k u' show ?thesis by blast
qed

text \<open>
  C10. An update of an existing id whose body supplies the empty string as title or as
  content is answered with status 500 (so not 400): the required validators that
  \<open>runValidators: true\<close> runs reject the update, the \<open>catch\<close> branch reports the
  validation error's message, and the collection is as it was.
\<close>

theorem update_empty_field_returns_500:
  assumes "castObjectId ident = Some i" "i \<in> p_id ` set (posts s)"
    and "b_title b = Str [] \<or> b_content b = Str []"
  shows "status (fst (put_api_posts_id e ident b s)) = 500 \<and>
     status (fst (put_api_posts_id e ident b s)) \<noteq> 400 \<and>
     success (fst (put_api_posts_id e ident b s)) = Some False \<and>
     validate_update (b_title b) (b_content b) \<noteq> [] \<and>
     error (fst (put_api_posts_id e ident b s)) =
       Some (error_message (ValidationError (validate_update (b_title b) (b_content b)))) \<and>
     posts (snd (put_api_posts_id e ident b s)) = posts s"
proof -
  from assms(3) have "validate_update (b_title b) (b_content b) \<noteq> []"
    by (auto simp: validate_update_Nil)
  with assms(1) show ?thesis
    by (simp add: put_api_posts_id_def findByIdAndUpdate_def server_error_def)
qed

theorem update_empty_field_returns_500_witness:
  "castObjectId ''000000000000000000000000'' = Some 0 \<and>
   status (fst (put_api_posts_id \<lparr>now = 9, fault = None\<rparr> ''000000000000000000000000''
      \<lparr>b_title = Str [], b_content = Str ''B2'', b_author = Undefined\<rparr>
      \<lparr>posts = [\<lparr>p_id = 0, p_title = Some ''A'', p_content = Some ''B'', p_author = Some ''X'',
                 createdAt = 5, updatedAt = 5\<rparr>], next_id = 1, storage_calls = 1\<rparr>)) = 500 \<and>
   error (fst (put_api_posts_id \<lparr>now = 9, fault = None\<rparr> ''000000000000000000000000''
      \<lparr>b_title = Str [], b_content = Str ''B2'', b_author = Undefined\<rparr>
      \<lparr>posts = [\<lparr>p_id = 0, p_title = Some ''A'', p_content = Some ''B'', p_author = Some ''X'',
                 createdAt = 5, updatedAt = 5\<rparr>], next_id = 1, storage_calls = 1\<rparr>)) =
     Some ''Validation failed: title: Path title is required.'' \<and>
   posts (snd (put_api_posts_id \<lparr>now = 9, fault = None\<rparr> ''000000000000000000000000''
      \<lparr>b_title = Str [], b_content = Str ''B2'', b_author = Undefined\<rparr>
      \<lparr>posts = [\<lparr>p_id = 0, p_title = Some ''A'', p_content = Some ''B'', p_author = Some ''X'',
                 createdAt = 5, updatedAt = 5\<rparr>], next_id = 1, storage_calls = 1\<rparr>)) =
     [\<lparr>p_id = 0, p_title = Some ''A'', p_content = Some ''B'', p_author = Some ''X'',
                 createdAt = 5, updatedAt = 5\<rparr>]"
  using update_empty_field_returns_500[of "''000000000000000000000000''" 0
      "\<lparr>posts = [\<lparr>p_id = 0, p_title = Some ''A'', p_content = Some ''B'', p_author = Some ''X'',
                 createdAt = 5, updatedAt = 5\<rparr>], next_id = 1, storage_calls = 1\<rparr>"
      "\<lparr>b_title = Str [], b_content = Str ''B2'', b_author = Undefined\<rparr>"
      "\<lparr>now = 9, fault = None\<rparr>"]
  by (simp add: cast_id_0 validate_update_def required_ok_def)

subsection \<open>Deleting a post\<close>

text \<open>
  C8. A delete request whose id is the \<open>_id\<close> of a stored record, with the database
  not failing the call, is answered with status 200 and that record as it was stored;
  the collection afterwards holds exactly the records with another \<open>_id\<close>, unchanged
  and in their order. A second delete of the same id (again with no database failure)
  is answered with status 404. Stored \<open>_id\<close>s are pairwise different.
\<close>

theorem delete_existing_id:
  assumes "castObjectId ident = Some (p_id r)" "r \<in> set (posts s)"
    and "distinct (map p_id (posts s))"
    and "fault e = None" "fault e2 = None"
  shows "status (fst (delete_api_posts_id e ident s)) = 200 \<and>
     post (fst (delete_api_posts_id e ident s)) = Some r \<and>
     posts (snd (delete_api_posts_id e ident s)) = filter (\<lambda>x. p_id x \<noteq> p_id r) (posts s) \<and>
     r \<notin> set (posts (snd (delete_api_posts_id e ident s))) \<and>
     status (fst (delete_api_posts_id e2 ident (snd (delete_api_posts_id e ident s)))) = 404"
proof -
  have f: "find (\<lambda>x. p_id x = p_id r) (posts s) = Some r"
    using assms(2,3) by (rule find_id_distinct[rotated])
  have d: "delete_api_posts_id e ident s =
      (ok_post 200 ''Post deleted successfully!'' r,
       s\<lparr>storage_calls := Suc (storage_calls s),
         posts := filter (\<lambda>x. p_id x \<noteq> p_id r) (posts s)\<rparr>)"
    using assms(1,3,4) f
    by (simp add: delete_api_posts_id_def findByIdAndDelete_def remove_first_filter)
  have "find (\<lambda>x. p_id x = p_id r) (filter (\<lambda>x. p_id x \<noteq> p_id r) (posts s)) = None"
    by (auto simp: find_id_None)
  then have "fst (delete_api_posts_id e2 ident
      (s\<lparr>storage_calls := Suc (storage_calls s),
         posts := filter (\<lambda>x. p_id x \<noteq> p_id r) (posts s)\<rparr>)) = not_found"
    using assms(1,5) by (simp add: delete_api_posts_id_def findByIdAndDelete_def)
  with d show ?thesis by (simp add: ok_post_def not_found_def)
qed

theorem delete_existing_id_witness:
  "castObjectId ''000000000000000000000000'' =
     Some (p_id \<lparr>p_id = 0, p_title = Some ''A'', p_content = Some ''B'', p_author = Some ''X'',
                  createdAt = 5, updatedAt = 5\<rparr>) \<and>
   status (fst (delete_api_posts_id \<lparr>now = 9, fault = None\<rparr> ''000000000000000000000000''
      \<lparr>posts = [\<lparr>p_id = 0, p_title = Some ''A'', p_content = Some ''B'', p_author = Some ''X'',
                  createdAt = 5, updatedAt = 5\<rparr>,
                 \<lparr>p_id = 1, p_title = Some ''C'', p_content = Some ''D'', p_author = Some ''Y'',
                  createdAt = 7, updatedAt = 7\<rparr>], next_id = 2, storage_calls = 2\<rparr>)) = 200 \<and>
   posts (snd (delete_api_posts_id \<lparr>now = 9, fault = None\<rparr> ''000000000000000000000000''
      \<lparr>posts = [\<lparr>p_id = 0, p_title = Some ''A'', p_content = Some ''B'', p_author = Some ''X'',
                  createdAt = 5, updatedAt = 5\<rparr>,
                 \<lparr>p_id = 1, p_title = Some ''C'', p_content = Some ''D'', p_author = Some ''Y'',
                  createdAt = 7, updatedAt = 7\<rparr>], next_id = 2, storage_calls = 2\<rparr>)) =
     [\<lparr>p_id = 1, p_title = Some ''C'', p_content = Some ''D'', p_author = Some ''Y'',
                  createdAt = 7, updatedAt = 7\<rparr>] \<and>
   status (fst (delete_api_posts_id \<lparr>now = 11, fault = None\<rparr> ''000000000000000000000000''
     (snd (delete_api_posts_id \<lparr>now = 9, fault = None\<rparr> ''000000000000000000000000''
      \<lparr>posts = [\<lparr>p_id = 0, p_title = Some ''A'', p_content = Some ''B'', p_author = Some ''X'',
                  createdAt = 5, updatedAt = 5\<rparr>,
                 \<lparr>p_id = 1, p_title = Some ''C'', p_content = Some ''D'', p_author = Some ''Y'',
                  createdAt = 7, updatedAt = 7\<rparr>], next_id = 2, storage_calls = 2\<rparr>)))) = 404"
  using delete_existing_id[of "''000000000000000000000000''"
      "\<lparr>p_id = 0, p_title = Some ''A'', p_content = Some ''B'', p_author = Some ''X'',
                  createdAt = 5, updatedAt = 5\<rparr>"
      "\<lparr>posts = [\<lparr>p_id = 0, p_title = Some ''A'', p_content = Some ''B'', p_author = Some ''X'',
                  createdAt = 5, updatedAt = 5\<rparr>,
                 \<lparr>p_id = 1, p_title = Some ''C'', p_content = Some ''D'', p_author = Some ''Y'',
                  createdAt = 7, updatedAt = 7\<rparr>], next_id = 2, storage_calls = 2\<rparr>"
      "\<lparr>now = 9, fault = None\<rparr>" "\<lparr>now = 11, fault = None\<rparr>"]
  by (simp add: cast_id_0)

subsection \<open>Every reachable store\<close>

text \<open>
  C3. Whatever sequence of requests (create, list, update, delete, root; any bodies, ids,
  clock values and database failures) is served from the empty store, every record then
  stored has a title and a content that are present and non-empty.
\<close>

theorem stored_title_content_nonempty:
  "\<forall>r\<in>set (posts (run qs empty_store)).
     p_title r \<noteq> None \<and> p_title r \<noteq> Some [] \<and> p_content r \<noteq> None \<and> p_content r \<noteq> Some []"
  using run_stored_ok[of empty_store qs]
  by (simp add: empty_store_def stored_ok_def required_ok_iff)

theorem stored_title_content_nonempty_witness:
  "posts (run [Create \<lparr>now = 5, fault = None\<rparr>
                  \<lparr>b_title = Str ''A'', b_content = Str ''B'', b_author = Undefined\<rparr>,
               Update \<lparr>now = 9, fault = None\<rparr> ''000000000000000000000000''
                  \<lparr>b_title = Str ''A2'', b_content = Undefined, b_author = Null\<rparr>] empty_store) =
     [\<lparr>p_id = 0, p_title = Some ''A2'', p_content = Some ''B'', p_author = None,
       createdAt = 5, updatedAt = 9\<rparr>] \<and>
   p_title (hd (posts (run [Create \<lparr>now = 5, fault = None\<rparr>
                  \<lparr>b_title = Str ''A'', b_content = Str ''B'', b_author = Undefined\<rparr>,
               Update \<lparr>now = 9, fault = None\<rparr> ''000000000000000000000000''
                  \<lparr>b_title = Str ''A2'', b_content = Undefined, b_author = Null\<rparr>] empty_store))) \<noteq> None \<and>
   p_content (hd (posts (run [Create \<lparr>now = 5, fault = None\<rparr>
                  \<lparr>b_title = Str ''A'', b_content = Str ''B'', b_author = Undefined\<rparr>,
               Update \<lparr>now = 9, fault = None\<rparr> ''000000000000000000000000''
                  \<lparr>b_title = Str ''A2'', b_content = Undefined, b_author = Null\<rparr>] empty_store))) \<noteq> Some []"
proof -
  let ?qs = "[Create \<lparr>now = 5, fault = None\<rparr>
                  \<lparr>b_title = Str ''A'', b_content = Str ''B'', b_author = Undefined\<rparr>,
               Update \<lparr>now = 9, fault = None\<rparr> ''000000000000000000000000''
                  \<lparr>b_title = Str ''A2'', b_content = Undefined, b_author = Null\<rparr>]"
  have ev: "posts (run ?qs empty_store) =
     [\<lparr>p_id = 0, p_title = Some ''A2'', p_content = Some ''B'', p_author = None,
       createdAt = 5, updatedAt = 9\<rparr>]"
    by code_simp
  then have "hd (posts (run ?qs empty_store)) \<in> set (posts (run ?qs empty_store))"
    by simp
  with stored_title_content_nonempty[of ?qs]
  have "p_title (hd (posts (run ?qs empty_store))) \<noteq> None \<and>
        p_content (hd (posts (run ?qs empty_store))) \<noteq> Some []"
    by blast
  with ev show ?thesis by blast
qed

subsection \<open>Failures of the storage call\<close>

text \<open>
  C9. In each of the four handlers that call the store, whenever the storage call
  rejects with an error, the handler answers with status 500 and an envelope with
  \<open>success: false\<close> whose \<open>error\<close> key is the error's message. (The create handler
  makes its call only after its guard has passed; the root route makes no storage call.
  A handler is a total function to a response, so no rejection leaves it unanswered.)
\<close>

theorem storage_failure_returns_500:
  "(truthy (b_title b) \<and> truthy (b_content b) \<and>
      fst (save e (fst (new_Post (b_title b) (b_content b)
                         (js_or (b_author b) (Str ''Anonymous'')) s))
                  (snd (new_Post (b_title b) (b_content b)
                         (js_or (b_author b) (Str ''Anonymous'')) s)))
        = Inl err1 \<longrightarrow>
      status (fst (post_api_posts e b s)) = 500 \<and>
      success (fst (post_api_posts e b s)) = Some False \<and>
      error (fst (post_api_posts e b s)) = Some (error_message err1)) \<and>
   (fst (find_sorted e s) = Inl err2 \<longrightarrow>
      status (fst (get_api_posts e s)) = 500 \<and>
      success (fst (get_api_posts e s)) = Some False \<and>
      error (fst (get_api_posts e s)) = Some (error_message err2)) \<and>
   (fst (findByIdAndUpdate e ident (b_title b) (b_content b) (b_author b) s) = Inl err3 \<longrightarrow>
      status (fst (put_api_posts_id e ident b s)) = 500 \<and>
      success (fst (put_api_posts_id e ident b s)) = Some False \<and>
      error (fst (put_api_posts_id e ident b s)) = Some (error_message err3)) \<and>
   (fst (findByIdAndDelete e ident s) = Inl err4 \<longrightarrow>
      status (fst (delete_api_posts_id e ident s)) = 500 \<and>
      success (fst (delete_api_posts_id e ident s)) = Some False \<and>
      error (fst (delete_api_posts_id e ident s)) = Some (error_message err4))"
  by (auto simp: post_api_posts_def get_api_posts_def put_api_posts_id_def
      delete_api_posts_id_def server_error_def list_error_def split: prod.splits sum.splits)

theorem storage_failure_returns_500_witness:
  "fst (find_sorted \<lparr>now = 9, fault = Some ''connection lost''\<rparr> empty_store) =
     Inl (MongoError ''connection lost'') \<and>
   status (fst (get_api_posts \<lparr>now = 9, fault = Some ''connection lost''\<rparr> empty_store)) = 500 \<and>
   error (fst (get_api_posts \<lparr>now = 9, fault = Some ''connection lost''\<rparr> empty_store)) =
     Some ''connection lost'' \<and>
   status (fst (post_api_posts \<lparr>now = 9, fault = Some ''connection lost''\<rparr>
     \<lparr>b_title = Str ''A'', b_content = Str ''B'', b_author = Undefined\<rparr> empty_store)) = 500 \<and>
   error (fst (post_api_posts \<lparr>now = 9, fault = Some ''connection lost''\<rparr>
     \<lparr>b_title = Str ''A'', b_content = Str ''B'', b_author = Undefined\<rparr> empty_store)) =
     Some ''connection lost'' \<and>
   status (fst (put_api_posts_id \<lparr>now = 9, fault = Some ''connection lost''\<rparr>
     ''000000000000000000000000''
     \<lparr>b_title = Str ''A'', b_content = Str ''B'', b_author = Undefined\<rparr> empty_store)) = 500 \<and>
   status (fst (delete_api_posts_id \<lparr>now = 9, fault = Some ''connection lost''\<rparr>
     ''000000000000000000000000'' empty_store)) = 500"
proof -
  let ?E = "\<lparr>now = 9, fault = Some ''connection lost''\<rparr>"
  let ?B = "\<lparr>b_title = Str ''A'', b_content = Str ''B'', b_author = Undefined\<rparr>"
  let ?I = "''000000000000000000000000''"
  have h1: "truthy (b_title ?B) \<and> truthy (b_content ?B) \<and>
      fst (save ?E (fst (new_Post (b_title ?B) (b_content ?B)
                      (js_or (b_author ?B) (Str ''Anonymous'')) empty_store))
                  (snd (new_Post (b_title ?B) (b_content ?B)
                      (js_or (b_author ?B) (Str ''Anonymous'')) empty_store)))
        = Inl (MongoError ''connection lost'')"
    by code_simp
  have h2: "fst (find_sorted ?E empty_store) = Inl (MongoError ''connection lost'')"
    by code_simp
  have h3: "fst (findByIdAndUpdate ?E ?I (b_title ?B) (b_content ?B) (b_author ?B) empty_store)
      = Inl (MongoError ''connection lost'')"
    by code_simp
  have h4: "fst (findByIdAndDelete ?E ?I empty_store) = Inl (MongoError ''connection lost'')"
    by code_simp
  from storage_failure_returns_500[of ?B ?E empty_store
      "MongoError ''connection lost''" "MongoError ''connection lost''"
      ?I "MongoError ''connection lost''" "MongoError ''connection lost''"] h1 h2 h3 h4
  show ?thesis by simp
qed

subsection \<open>Stores served from the empty store\<close>

text \<open>
  The conditions on ids that C1, C2 and C8 ask of the store hold in every store that the
  handlers produce from the empty one.
\<close>

lemma served_store_ids:
  "distinct (map p_id (posts (run qs empty_store))) \<and>
   (\<forall>r\<in>set (posts (run qs empty_store)). p_id r < next_id (run qs empty_store))"
  using reachable_ids_ok[of qs] by (simp add: ids_ok_def)

end
